theory Spec2Isabelle
  imports Main
begin

section \<open>Host, process and library interface\<close>

text \<open>
  The formatter module (\<^verbatim>\<open>formatter.ts\<close>) and the top-level extension
  (\<^verbatim>\<open>extension.ts\<close>) are event handlers running on the editor's event loop.
  Each handler is modelled as a function from the state it can reach to the state it
  leaves behind, together with an \<open>outcome\<close>: \<open>Returned\<close> when the promise of
  the handler resolves, \<open>Threw\<close> when it rejects.
\<close>

datatype outcome = Returned | Threw

text \<open>
  Calls into the editor and into the language-client library are recorded, in program
  order, as events. The type parameter \<open>'i\<close> is the type of
  \<^verbatim>\<open>configService.languageServerConfig\<close>, the blob used both as
  \<^verbatim>\<open>initializationOptions\<close> and as the payload of a configuration push.
  A library call is recorded when it is made, whether or not its promise resolves.
\<close>

datatype 'i event =
    ChannelError string            \<comment> \<open>\<^verbatim>\<open>outputChannel.error(msg, ...)\<close>\<close>
  | ChannelInfo string             \<comment> \<open>\<^verbatim>\<open>outputChannel.info(msg)\<close>\<close>
  | ChannelDebug string            \<comment> \<open>\<^verbatim>\<open>outputChannel.debug(msg)\<close>\<close>
  | ShowInformationMessage string  \<comment> \<open>\<^verbatim>\<open>window.showInformationMessage(msg)\<close>\<close>
  | ShowWarningMessage string      \<comment> \<open>\<^verbatim>\<open>window.showWarningMessage(msg)\<close>\<close>
  | ShowErrorMessage string        \<comment> \<open>\<^verbatim>\<open>window.showErrorMessage(msg)\<close>\<close>
  | FsAccess string                \<comment> \<open>\<^verbatim>\<open>fsPromises.access(path)\<close>\<close>
  | ClientStart 'i                 \<comment> \<open>\<^verbatim>\<open>client.start()\<close>, with the initializationOptions it launches with\<close>
  | ClientStop                     \<comment> \<open>\<^verbatim>\<open>client.stop()\<close>\<close>
  | ClientRestart 'i               \<comment> \<open>\<^verbatim>\<open>client.restart()\<close>, with the initializationOptions it launches with\<close>
  | SendNotification string 'i     \<comment> \<open>\<^verbatim>\<open>client.sendNotification(method, {settings})\<close>\<close>
  | ClientErrorForce string        \<comment> \<open>\<^verbatim>\<open>client.error(msg, err, 'force')\<close>\<close>

text \<open>The ambient process: \<^verbatim>\<open>process.env\<close>, \<^verbatim>\<open>process.platform\<close>,
  and which paths \<^verbatim>\<open>fsPromises.access\<close> accepts.\<close>

record ambient =
  process_env :: "string \<rightharpoonup> string"
  process_platform :: string
  fs_accessible :: "string \<Rightarrow> bool"

text \<open>How the awaited library calls made during one handler invocation turn out.\<close>

record io =
  start_ok :: bool
  stop_ok :: bool
  send_ok :: bool

subsection \<open>The configuration service, as the formatter reads it\<close>

text \<open>
  A \<^verbatim>\<open>Uri\<close> is what the editor's \<^verbatim>\<open>Uri.parse\<close> returns. The parser
  validates its argument and throws on a string it rejects (two slashes at the start of
  the path without an authority, as in \<^verbatim>\<open>file:////ws\<close>, for one). It is the
  editor's code, so it is a parameter \<open>parse\<close> of the functions that call it, and
  \<open>parse u = None\<close> stands for the throw.
\<close>

datatype Uri = Uri string

datatype error = UriError

record 'c WorkspaceConfig =
  toLanguageServerConfig :: 'c

text \<open>
  \<^verbatim>\<open>ConfigService\<close> is imported by both source files; only the members they read
  appear here, each as a field holding what the member returns. \<open>'e\<close> is the
  host's \<^verbatim>\<open>ConfigurationChangeEvent\<close>.
\<close>

record ('i, 'c, 'e) ConfigService =
  enable :: bool                                     \<comment> \<open>\<^verbatim>\<open>vsCodeConfig.enable\<close>\<close>
  nodePath :: "string option"                        \<comment> \<open>\<^verbatim>\<open>vsCodeConfig.nodePath\<close>\<close>
  languageServerConfig :: 'i
  getOxfmtServerBinPath :: "string option"
  effectsWorkspaceConfigChange :: "'e \<Rightarrow> bool"
  getWorkspaceConfig :: "Uri \<Rightarrow> 'c WorkspaceConfig option"

subsection \<open>The language client\<close>

record Executable =
  command :: string
  args :: "string list"
  shell :: "bool option"          \<comment> \<open>\<^verbatim>\<open>options.shell\<close>, absent in the node shape\<close>
  env :: "string \<rightharpoonup> string"      \<comment> \<open>\<^verbatim>\<open>options.env\<close>\<close>

record ServerOptions =
  run :: Executable
  debug :: Executable

record DocumentFilter =
  pattern :: string
  scheme :: string

datatype lifecycle = Unstarted | Running | Stopped

record 'i LanguageClient =
  client_name :: string
  serverOptions :: ServerOptions
  documentSelector :: "DocumentFilter list"
  initializationOptions :: 'i     \<comment> \<open>\<^verbatim>\<open>clientOptions.initializationOptions\<close>\<close>
  state :: lifecycle

text \<open>
  The library's session operations, at the interface the module uses: a session is
  \<open>Unstarted\<close> when constructed; \<^verbatim>\<open>start()\<close> leads to \<open>Running\<close>, or
  rejects and leaves the session as it was; \<^verbatim>\<open>stop()\<close> leads to \<open>Stopped\<close>, or
  rejects and leaves the session as it was; \<^verbatim>\<open>restart()\<close> is stop followed by start.
\<close>

definition isRunning :: "('i, 'z) LanguageClient_scheme \<Rightarrow> bool" where
  "isRunning c = (state c = Running)"

definition client_start :: "io \<Rightarrow> 'i LanguageClient \<Rightarrow> 'i LanguageClient \<times> outcome" where
  "client_start k c = (if start_ok k then (c\<lparr>state := Running\<rparr>, Returned) else (c, Threw))"

definition client_stop :: "io \<Rightarrow> 'i LanguageClient \<Rightarrow> 'i LanguageClient \<times> outcome" where
  "client_stop k c = (if stop_ok k then (c\<lparr>state := Stopped\<rparr>, Returned) else (c, Threw))"

definition client_restart :: "io \<Rightarrow> 'i LanguageClient \<Rightarrow> 'i LanguageClient \<times> outcome" where
  "client_restart k c =
     (case client_stop k c of
        (c1, Threw) \<Rightarrow> (c1, Threw)
      | (c1, Returned) \<Rightarrow> client_start k c1)"

subsection \<open>What the handlers can reach\<close>

datatype OxcCommands = RestartServer | ShowOutputChannel | ToggleEnable

datatype disposable =
    RestartCommandD | ShowOutputCommandD | ToggleEnableD | ConfigServiceD
  | OutputChannelLintD | OutputChannelFormatD | OnDidChangeWorkspaceFoldersD
  | OnNotificationD | OnDeleteFilesD | StatusBarItemD

record StatusBarItem =
  item_command :: OxcCommands
  item_text :: string
  item_backgroundColor :: "string option"
  item_shown :: bool

text \<open>Which function \<^verbatim>\<open>configService.onConfigChange\<close> currently holds.\<close>

datatype handler = ExtensionHandler | LinterHandler | FormatterHandler

text \<open>
  \<open>client\<close> and \<open>myStatusBarItem\<close> are the formatter module's two variables;
  \<open>subscriptions\<close> is \<^verbatim>\<open>context.subscriptions\<close>; \<open>cs_onConfigChange\<close> is the
  handler field of the configuration service; \<open>effects\<close> are the calls made so far.
\<close>

record 'i host =
  client :: "'i LanguageClient option"
  myStatusBarItem :: "StatusBarItem option"
  subscriptions :: "disposable list"
  cs_onConfigChange :: "handler option"
  effects :: "'i event list"

definition emit :: "'i event list \<Rightarrow> 'i host \<Rightarrow> 'i host" where
  "emit evs w = w\<lparr>effects := effects w @ evs\<rparr>"

section \<open>The formatter module\<close>

text \<open>JavaScript truthiness of an optional string: defined and not empty.\<close>

definition truthy :: "string option \<Rightarrow> bool" where
  "truthy v = (case v of None \<Rightarrow> False | Some s \<Rightarrow> s \<noteq> [])"

definition endsWith :: "string \<Rightarrow> string \<Rightarrow> bool" where
  "endsWith s suf = (length suf \<le> length s \<and> drop (length s - length suf) s = suf)"

text \<open>\<^verbatim>\<open>findBinary\<close>: the calls it makes and the path it resolves to.\<close>

definition findBinary ::
  "ambient \<Rightarrow> ('i, 'c, 'e) ConfigService \<Rightarrow> 'i event list \<times> string option" where
  "findBinary p cs =
     (case getOxfmtServerBinPath cs of
        None \<Rightarrow> ([], process_env p ''SERVER_PATH_DEV'')
      | Some bin \<Rightarrow>
          if bin \<noteq> [] then
            (if fs_accessible p bin then ([FsAccess bin], Some bin)
             else ([FsAccess bin, ChannelError (''Invalid bin path: '' @ bin)],
                   process_env p ''SERVER_PATH_DEV''))
          else ([], process_env p ''SERVER_PATH_DEV''))"

definition serverEnv :: "ambient \<Rightarrow> ('i, 'c, 'e) ConfigService \<Rightarrow> (string \<rightharpoonup> string)" where
  "serverEnv p cs =
     (let e = (process_env p)(''RUST_LOG'' \<mapsto>
                 (if truthy (process_env p ''RUST_LOG'') then the (process_env p ''RUST_LOG'')
                  else ''info''))
      in if truthy (nodePath cs) then
           e(''PATH'' \<mapsto> the (nodePath cs)
                         @ (if process_platform p = ''win32'' then '';'' else '':'')
                         @ (case process_env p ''PATH'' of None \<Rightarrow> [] | Some v \<Rightarrow> v))
         else e)"

definition isNode :: "string \<Rightarrow> bool" where
  "isNode path = (endsWith path ''.js'' \<or> endsWith path ''.cjs'' \<or> endsWith path ''.mjs'')"

definition mk_run :: "ambient \<Rightarrow> ('i, 'c, 'e) ConfigService \<Rightarrow> string \<Rightarrow> Executable" where
  "mk_run p cs path =
     (if isNode path then
        \<lparr>command = ''node'', args = [path, ''--lsp''], shell = None, env = serverEnv p cs\<rparr>
      else
        \<lparr>command = path, args = [''--lsp''],
         shell = Some (process_platform p = ''win32''), env = serverEnv p cs\<rparr>)"

definition supportedExtensions :: "string list" where
  "supportedExtensions =
     [''astro'', ''cjs'', ''cts'', ''js'', ''jsx'', ''mjs'', ''mts'', ''svelte'', ''ts'', ''tsx'', ''vue'']"

fun join :: "string \<Rightarrow> string list \<Rightarrow> string" where
  "join sep [] = []"
| "join sep [x] = x"
| "join sep (x # y # ys) = x @ sep @ join sep (y # ys)"

subsection \<open>The configuration-pull middleware\<close>

record ConfigurationItem =
  scopeUri :: "string option"
  item_section :: "string option"

definition configuration_item ::
  "(string \<Rightarrow> Uri option) \<Rightarrow> ('i, 'c, 'e) ConfigService \<Rightarrow> ConfigurationItem \<Rightarrow>
   error + 'c option" where
  "configuration_item parse cs item =
     (if item_section item \<noteq> Some ''oxc_language_server'' then Inr None
      else (case scopeUri item of
              None \<Rightarrow> Inr None
            | Some u \<Rightarrow>
                (case parse u of
                   None \<Rightarrow> Inl UriError
                 | Some uri \<Rightarrow>
                     (case getWorkspaceConfig cs uri of
                        None \<Rightarrow> Inr None
                      | Some wc \<Rightarrow> Inr (Some (toLanguageServerConfig wc))))))"

text \<open>\<^verbatim>\<open>params.items.map(...)\<close>: the items are answered in order, and the first
  throw ends the request without a response list.\<close>

fun configuration ::
  "(string \<Rightarrow> Uri option) \<Rightarrow> ('i, 'c, 'e) ConfigService \<Rightarrow> ConfigurationItem list \<Rightarrow>
   error + 'c option list" where
  "configuration parse cs [] = Inr []"
| "configuration parse cs (item # items) =
     (case configuration_item parse cs item of
        Inl e \<Rightarrow> Inl e
      | Inr r \<Rightarrow>
          (case configuration parse cs items of
             Inl e \<Rightarrow> Inl e
           | Inr rs \<Rightarrow> Inr (r # rs)))"

subsection \<open>The ShowMessage notification handler\<close>

text \<open>The protocol's \<^verbatim>\<open>MessageType\<close> numbers.\<close>

definition MessageType_Error :: int where "MessageType_Error = 1"
definition MessageType_Warning :: int where "MessageType_Warning = 2"
definition MessageType_Info :: int where "MessageType_Info = 3"
definition MessageType_Log :: int where "MessageType_Log = 4"
definition MessageType_Debug :: int where "MessageType_Debug = 5"

record ShowMessageParams =
  msg_type :: int
  message :: string

definition onShowMessage :: "ShowMessageParams \<Rightarrow> 'i event list" where
  "onShowMessage params =
     (if msg_type params = MessageType_Debug then [ChannelDebug (message params)]
      else if msg_type params = MessageType_Log then [ChannelInfo (message params)]
      else if msg_type params = MessageType_Info then [ShowInformationMessage (message params)]
      else if msg_type params = MessageType_Warning then [ShowWarningMessage (message params)]
      else if msg_type params = MessageType_Error then [ShowErrorMessage (message params)]
      else [ChannelInfo (message params)])"

subsection \<open>Status bar\<close>

definition updateStatsBar :: "bool \<Rightarrow> 'i host \<Rightarrow> 'i host" where
  "updateStatsBar en w =
     (let w1 = (case myStatusBarItem w of
                  None \<Rightarrow>
                    w\<lparr>myStatusBarItem :=
                        Some \<lparr>item_command = ToggleEnable, item_text = [],
                              item_backgroundColor = None, item_shown = True\<rparr>,
                      subscriptions := subscriptions w @ [StatusBarItemD]\<rparr>
                | Some _ \<Rightarrow> w);
          bgColor = (if \<not> en then ''statusBarItem.warningBackground''
                     else ''statusBarItem.activeBackground'');
          icon = (if \<not> en then ''$(check)'' else ''$(check-all)'')
      in w1\<lparr>myStatusBarItem :=
              map_option (\<lambda>i. i\<lparr>item_text := icon @ '' oxc (fmt)'',
                                item_backgroundColor := Some bgColor\<rparr>)
                         (myStatusBarItem w1)\<rparr>)"

subsection \<open>Lifecycle entry points\<close>

definition activate ::
  "ambient \<Rightarrow> ('i, 'c, 'e) ConfigService \<Rightarrow> io \<Rightarrow> 'i host \<Rightarrow> 'i host \<times> outcome" where
  "activate p cs k w =
     (case findBinary p cs of (evs, path) \<Rightarrow>
        if \<not> truthy path then
          (emit (evs @ [ChannelError ''oxfmt server binary not found.'']) w, Returned)
        else
          let c = \<lparr>client_name = ''oxc'',
                   serverOptions = \<lparr>run = mk_run p cs (the path), debug = mk_run p cs (the path)\<rparr>,
                   documentSelector =
                     [\<lparr>pattern = ''**/*.{'' @ join '','' supportedExtensions @ ''}'',
                       scheme = ''file''\<rparr>],
                   initializationOptions = languageServerConfig cs,
                   state = Unstarted\<rparr>;
              w1 = (emit (evs @ [ChannelInfo (''Using server binary at: '' @ the path)]) w)
                     \<lparr>client := Some c,
                      subscriptions := subscriptions w @ [OnNotificationD, OnDeleteFilesD],
                      cs_onConfigChange := Some FormatterHandler\<rparr>
          in if enable cs then
               (case client_start k c of (c', r) \<Rightarrow>
                  ((emit [ClientStart (initializationOptions c)] w1)\<lparr>client := Some c'\<rparr>, r))
             else (w1, Returned))"

definition deactivate :: "io \<Rightarrow> 'i host \<Rightarrow> 'i host \<times> outcome" where
  "deactivate k w =
     (case client w of
        None \<Rightarrow> (w, Returned)
      | Some c \<Rightarrow>
          (case client_stop k c of
             (c', Threw) \<Rightarrow> ((emit [ClientStop] w)\<lparr>client := Some c'\<rparr>, Threw)
           | (c', Returned) \<Rightarrow> ((emit [ClientStop] w)\<lparr>client := None\<rparr>, Returned)))"

definition restartClient :: "io \<Rightarrow> 'i host \<Rightarrow> 'i host \<times> outcome" where
  "restartClient k w =
     (case client w of
        None \<Rightarrow> (emit [ShowErrorMessage ''oxc client not found''] w, Returned)
      | Some c \<Rightarrow>
          if isRunning c then
            (case client_restart k c of
               (c', Returned) \<Rightarrow>
                 ((emit [ClientRestart (initializationOptions c),
                         ShowInformationMessage ''oxc server restarted.''] w)
                    \<lparr>client := Some c'\<rparr>, Returned)
             | (c', Threw) \<Rightarrow>
                 ((emit [ClientRestart (initializationOptions c),
                         ClientErrorForce ''Restarting client failed''] w)
                    \<lparr>client := Some c'\<rparr>, Returned))
          else
            (case client_start k c of
               (c', Returned) \<Rightarrow>
                 ((emit [ClientStart (initializationOptions c)] w)\<lparr>client := Some c'\<rparr>, Returned)
             | (c', Threw) \<Rightarrow>
                 ((emit [ClientStart (initializationOptions c),
                         ClientErrorForce ''Restarting client failed''] w)
                    \<lparr>client := Some c'\<rparr>, Returned)))"

definition toggleClient ::
  "('i, 'c, 'e) ConfigService \<Rightarrow> io \<Rightarrow> 'i host \<Rightarrow> 'i host \<times> outcome" where
  "toggleClient cs k w =
     (case client w of
        None \<Rightarrow> (w, Returned)
      | Some c \<Rightarrow>
          if isRunning c then
            (if \<not> enable cs then
               (case client_stop k c of (c', r) \<Rightarrow>
                  ((emit [ClientStop] w)\<lparr>client := Some c'\<rparr>, r))
             else (w, Returned))
          else
            (if enable cs then
               (case client_start k c of (c', r) \<Rightarrow>
                  ((emit [ClientStart (initializationOptions c)] w)\<lparr>client := Some c'\<rparr>, r))
             else (w, Returned)))"

definition onConfigChange ::
  "'e \<Rightarrow> ('i, 'c, 'e) ConfigService \<Rightarrow> io \<Rightarrow> 'i host \<Rightarrow> 'i host \<times> outcome" where
  "onConfigChange ev cs k w =
     (let w1 = updateStatsBar (enable cs) w
      in case client w1 of
           None \<Rightarrow> (w1, Returned)
         | Some c \<Rightarrow>
             let c1 = c\<lparr>initializationOptions := languageServerConfig cs\<rparr>;
                 w2 = w1\<lparr>client := Some c1\<rparr>
             in if effectsWorkspaceConfigChange cs ev \<and> isRunning c1 then
                  (emit [SendNotification ''workspace/didChangeConfiguration''
                           (languageServerConfig cs)] w2,
                   if send_ok k then Returned else Threw)
                else (w2, Returned))"

section \<open>The top-level extension\<close>

text \<open>
  What the two backend modules share with the extension: \<^verbatim>\<open>context.subscriptions\<close>
  and the handler field of the configuration service. (The process, the configuration
  service's settings and the event are passed to them to read.)
\<close>

record shared =
  ctx_subscriptions :: "disposable list"
  ctx_onConfigChange :: "handler option"

definition shared_of :: "'i host \<Rightarrow> shared" where
  "shared_of w = \<lparr>ctx_subscriptions = subscriptions w, ctx_onConfigChange = cs_onConfigChange w\<rparr>"

definition put_shared :: "shared \<Rightarrow> 'i host \<Rightarrow> 'i host" where
  "put_shared sh w =
     w\<lparr>subscriptions := ctx_subscriptions sh, cs_onConfigChange := ctx_onConfigChange sh\<rparr>"

text \<open>
  Modelled from the spec: \<^verbatim>\<open>linter.ts\<close> is imported by \<^verbatim>\<open>extension.ts\<close>
  but is not among the sources. The spec (sections 5, 6 and 9) describes it as a second
  per-backend module with the same five entry points, owning a session of its own.
  Its entry points are therefore parameters. Each may read the process
  (\<^verbatim>\<open>process.env\<close>, the platform, the file system) and the configuration service and
  event it is passed; each may change the linter module's own state \<open>'l\<close> and what is
  shared, and returns whether its promise resolved. The formatter module's variables
  \<open>client\<close> and \<open>myStatusBarItem\<close> are not exported, so no linter entry point can
  reach them.
\<close>

record ('i, 'c, 'e, 'l) linter_module =
  activateLinter ::
    "ambient \<Rightarrow> ('i, 'c, 'e) ConfigService \<Rightarrow> 'l \<times> shared \<Rightarrow> ('l \<times> shared) \<times> outcome"
  deactivateLinter :: "ambient \<Rightarrow> 'l \<times> shared \<Rightarrow> ('l \<times> shared) \<times> outcome"
  restartLinter :: "ambient \<Rightarrow> 'l \<times> shared \<Rightarrow> ('l \<times> shared) \<times> outcome"
  toggleLinter ::
    "ambient \<Rightarrow> ('i, 'c, 'e) ConfigService \<Rightarrow> 'l \<times> shared \<Rightarrow> ('l \<times> shared) \<times> outcome"
  onConfigChangeLinter ::
    "ambient \<Rightarrow> 'e \<Rightarrow> ('i, 'c, 'e) ConfigService \<Rightarrow> 'l \<times> shared \<Rightarrow> ('l \<times> shared) \<times> outcome"

record ('i, 'c, 'e, 'l) extension =
  configService :: "('i, 'c, 'e) ConfigService"
  lint :: 'l
  host :: "'i host"

definition skip_linter :: "ambient \<Rightarrow> bool" where
  "skip_linter p = (process_env p ''SKIP_LINTER_TEST'' = Some ''true'')"

definition skip_formatter :: "ambient \<Rightarrow> bool" where
  "skip_formatter p = (process_env p ''SKIP_FORMATTER_TEST'' = Some ''true'')"

text \<open>
  Every fan-out in \<^verbatim>\<open>extension.ts\<close> has the same body: the linter's call under
  the guard \<^verbatim>\<open>process.env.SKIP_LINTER_TEST !== 'true'\<close>, awaited, then the
  formatter's call under the guard \<^verbatim>\<open>process.env.SKIP_FORMATTER_TEST !== 'true'\<close>,
  awaited. A rejected \<^verbatim>\<open>await\<close> rejects the fan-out on the spot. What the linter
  did to the shared objects is there when the formatter's call starts.
\<close>

definition fanout ::
  "ambient \<Rightarrow> ('l \<times> shared \<Rightarrow> ('l \<times> shared) \<times> outcome) \<Rightarrow>
   ('i host \<Rightarrow> 'i host \<times> outcome) \<Rightarrow>
   ('i, 'c, 'e, 'l) extension \<Rightarrow> ('i, 'c, 'e, 'l) extension \<times> outcome" where
  "fanout p fl ff s =
     (case (if \<not> skip_linter p then fl (lint s, shared_of (host s))
            else ((lint s, shared_of (host s)), Returned)) of
        ((l', sh'), Threw) \<Rightarrow> (s\<lparr>lint := l', host := put_shared sh' (host s)\<rparr>, Threw)
      | ((l', sh'), Returned) \<Rightarrow>
          if \<not> skip_formatter p then
            (case ff (put_shared sh' (host s)) of (w', r) \<Rightarrow> (s\<lparr>lint := l', host := w'\<rparr>, r))
          else (s\<lparr>lint := l', host := put_shared sh' (host s)\<rparr>, Returned))"

definition restartCommand ::
  "('i, 'c, 'e, 'l) linter_module \<Rightarrow> ambient \<Rightarrow> io \<Rightarrow>
   ('i, 'c, 'e, 'l) extension \<Rightarrow> ('i, 'c, 'e, 'l) extension \<times> outcome" where
  "restartCommand L p k s = fanout p (restartLinter L p) (restartClient k) s"

text \<open>Modelled from the spec: \<^verbatim>\<open>vsCodeConfig.updateEnable\<close> is not among the
  sources; it stores the new value of the enable flag.\<close>

definition updateEnable :: "bool \<Rightarrow> ('i, 'c, 'e) ConfigService \<Rightarrow> ('i, 'c, 'e) ConfigService" where
  "updateEnable b cs = cs\<lparr>enable := b\<rparr>"

definition toggleEnable ::
  "('i, 'c, 'e, 'l) linter_module \<Rightarrow> ambient \<Rightarrow> io \<Rightarrow>
   ('i, 'c, 'e, 'l) extension \<Rightarrow> ('i, 'c, 'e, 'l) extension \<times> outcome" where
  "toggleEnable L p k s =
     (let cs = updateEnable (\<not> enable (configService s)) (configService s)
      in fanout p (toggleLinter L p cs) (toggleClient cs k) (s\<lparr>configService := cs\<rparr>))"

definition extension_onConfigChange ::
  "('i, 'c, 'e, 'l) linter_module \<Rightarrow> ambient \<Rightarrow> 'e \<Rightarrow> io \<Rightarrow>
   ('i, 'c, 'e, 'l) extension \<Rightarrow> ('i, 'c, 'e, 'l) extension \<times> outcome" where
  "extension_onConfigChange L p ev k s =
     fanout p (onConfigChangeLinter L p ev (configService s))
              (onConfigChange ev (configService s) k) s"

definition extension_activate ::
  "('i, 'c, 'e, 'l) linter_module \<Rightarrow> ambient \<Rightarrow> io \<Rightarrow>
   ('i, 'c, 'e, 'l) extension \<Rightarrow> ('i, 'c, 'e, 'l) extension \<times> outcome" where
  "extension_activate L p k s =
     (let w = (host s)
                \<lparr>subscriptions := subscriptions (host s) @
                   [RestartCommandD, ShowOutputCommandD, ToggleEnableD, ConfigServiceD,
                    OutputChannelLintD, OutputChannelFormatD, OnDidChangeWorkspaceFoldersD],
                 cs_onConfigChange := Some ExtensionHandler\<rparr>
      in fanout p (activateLinter L p (configService s)) (activate p (configService s) k)
                (s\<lparr>host := w\<rparr>))"

definition extension_deactivate ::
  "('i, 'c, 'e, 'l) linter_module \<Rightarrow> ambient \<Rightarrow> io \<Rightarrow>
   ('i, 'c, 'e, 'l) extension \<Rightarrow> ('i, 'c, 'e, 'l) extension \<times> outcome" where
  "extension_deactivate L p k s = fanout p (deactivateLinter L p) (deactivate k) s"

section \<open>Observations on effects\<close>

text \<open>The calls a handler added to the record of effects.\<close>

definition new_effects :: "'i host \<Rightarrow> 'i host \<Rightarrow> 'i event list" where
  "new_effects w w' = drop (length (effects w)) (effects w')"

text \<open>The initialization options a session launch was made with.\<close>

fun launch_option :: "'i event \<Rightarrow> 'i option" where
  "launch_option (ClientStart i) = Some i"
| "launch_option (ClientRestart i) = Some i"
| "launch_option _ = None"

fun is_restart :: "'i event \<Rightarrow> bool" where
  "is_restart (ClientRestart i) = True"
| "is_restart _ = False"

fun is_access :: "'i event \<Rightarrow> bool" where
  "is_access (FsAccess f) = True"
| "is_access _ = False"

text \<open>Events that put an error before the user or into the log.\<close>

fun is_error :: "'i event \<Rightarrow> bool" where
  "is_error (ShowErrorMessage m) = True"
| "is_error (ClientErrorForce m) = True"
| "is_error (ChannelError m) = True"
| "is_error _ = False"

text \<open>A message is logged when it was appended to the output channel, and alerted
  when it was shown through one of the window's interactive prompts.\<close>

definition logged :: "string \<Rightarrow> 'i event list \<Rightarrow> bool" where
  "logged m evs =
     (ChannelDebug m \<in> set evs \<or> ChannelInfo m \<in> set evs \<or> ChannelError m \<in> set evs)"

definition alerted :: "string \<Rightarrow> 'i event list \<Rightarrow> bool" where
  "alerted m evs =
     (ShowInformationMessage m \<in> set evs \<or> ShowWarningMessage m \<in> set evs \<or>
      ShowErrorMessage m \<in> set evs)"

definition recognized :: "int \<Rightarrow> bool" where
  "recognized t =
     (t \<in> {MessageType_Error, MessageType_Warning, MessageType_Info, MessageType_Log,
            MessageType_Debug})"

text \<open>What \<^verbatim>\<open>await client.start()\<close> on the module's session does, for comparison
  with \<open>restartClient\<close>.\<close>

definition start_session :: "io \<Rightarrow> 'i LanguageClient \<Rightarrow> 'i host \<Rightarrow> 'i host \<times> outcome" where
  "start_session k c w =
     (case client_start k c of (c', r) \<Rightarrow>
        ((emit [ClientStart (initializationOptions c)] w)\<lparr>client := Some c'\<rparr>, r))"

section \<open>Concrete scenarios\<close>

definition all_ok :: io where
  "all_ok = \<lparr>start_ok = True, stop_ok = True, send_ok = True\<rparr>"

definition start_fails :: io where
  "start_fails = \<lparr>start_ok = False, stop_ok = True, send_ok = True\<rparr>"

definition send_fails :: io where
  "send_fails = \<lparr>start_ok = True, stop_ok = True, send_ok = False\<rparr>"

definition demo_cs :: "(nat, nat, nat) ConfigService" where
  "demo_cs =
     \<lparr>enable = True, nodePath = None, languageServerConfig = 7,
      getOxfmtServerBinPath = Some ''/usr/local/bin/oxfmt'',
      effectsWorkspaceConfigChange = (\<lambda>e. e = 1),
      getWorkspaceConfig =
        (\<lambda>u. if u = Uri ''file:///ws'' then Some \<lparr>toLanguageServerConfig = 42\<rparr>
              else None)\<rparr>"


definition demo_ambient :: "(string \<rightharpoonup> string) \<Rightarrow> (string \<Rightarrow> bool) \<Rightarrow> ambient" where
  "demo_ambient e acc = \<lparr>process_env = e, process_platform = ''linux'', fs_accessible = acc\<rparr>"

definition demo_client :: "lifecycle \<Rightarrow> nat LanguageClient" where
  "demo_client st =
     \<lparr>client_name = ''oxc'',
      serverOptions =
        \<lparr>run = \<lparr>command = ''/usr/local/bin/oxfmt'', args = [''--lsp''],
                 shell = Some False, env = Map.empty\<rparr>,
         debug = \<lparr>command = ''/usr/local/bin/oxfmt'', args = [''--lsp''],
                   shell = Some False, env = Map.empty\<rparr>\<rparr>,
      documentSelector = [], initializationOptions = 3, state = st\<rparr>"

definition demo_host :: "nat LanguageClient option \<Rightarrow> nat host" where
  "demo_host c =
     \<lparr>client = c, myStatusBarItem = None, subscriptions = [],
      cs_onConfigChange = None, effects = []\<rparr>"

definition script_ambient :: ambient where
  "script_ambient =
     \<lparr>process_env = [''SERVER_PATH_DEV'' \<mapsto> ''/dev/server.js'', ''PATH'' \<mapsto> ''/usr/bin''],
      process_platform = ''linux'', fs_accessible = (\<lambda>f. True)\<rparr>"

definition script_cs :: "(nat, nat, nat) ConfigService" where
  "script_cs = demo_cs\<lparr>nodePath := Some ''/opt/node/bin'', getOxfmtServerBinPath := None\<rparr>"


text \<open>A parser that rejects \<^verbatim>\<open>file:////ws\<close>, as the editor's does, and accepts
  the other strings of the scenarios.\<close>

definition demo_parse :: "string \<Rightarrow> Uri option" where
  "demo_parse u = (if u = ''file:////ws'' then None else Some (Uri u))"

definition disabled_cs :: "(nat, nat, nat) ConfigService" where
  "disabled_cs = demo_cs\<lparr>enable := False\<rparr>"

section \<open>Runs of the extension under different kill-switches\<close>

text \<open>The five fan-outs of \<^verbatim>\<open>extension.ts\<close>, named so that a statement can range
  over them: activation, deactivation, the restart command, the toggle command, and the
  configuration-change handler.\<close>

datatype 'e command = Activate | Deactivate | Restart | Toggle | ConfigChange 'e

definition run_command ::
  "('i, 'c, 'e, 'l) linter_module \<Rightarrow> ambient \<Rightarrow> io \<Rightarrow> 'e command \<Rightarrow>
   ('i, 'c, 'e, 'l) extension \<Rightarrow> ('i, 'c, 'e, 'l) extension \<times> outcome" where
  "run_command L p k cmd s =
     (case cmd of
        Activate \<Rightarrow> extension_activate L p k s
      | Deactivate \<Rightarrow> extension_deactivate L p k s
      | Restart \<Rightarrow> restartCommand L p k s
      | Toggle \<Rightarrow> toggleEnable L p k s
      | ConfigChange ev \<Rightarrow> extension_onConfigChange L p ev k s)"

text \<open>The state in which a fan-out reaches its first guard: top-level activation has
  registered its commands and stored its handler, the toggle command has stored the
  flipped flag, the others have done nothing yet.\<close>

definition before_calls ::
  "'e command \<Rightarrow> ('i, 'c, 'e, 'l) extension \<Rightarrow> ('i, 'c, 'e, 'l) extension" where
  "before_calls cmd s =
     (case cmd of
        Activate \<Rightarrow>
          s\<lparr>host := (host s)
                \<lparr>subscriptions := subscriptions (host s) @
                   [RestartCommandD, ShowOutputCommandD, ToggleEnableD, ConfigServiceD,
                    OutputChannelLintD, OutputChannelFormatD, OnDidChangeWorkspaceFoldersD],
                 cs_onConfigChange := Some ExtensionHandler\<rparr>\<rparr>
      | Toggle \<Rightarrow>
          s\<lparr>configService := updateEnable (\<not> enable (configService s)) (configService s)\<rparr>
      | _ \<Rightarrow> s)"

text \<open>The linter entry point a fan-out calls, with the arguments it passes, and what
  that entry point finds: the linter's own state and the shared objects.\<close>

definition linter_call ::
  "('i, 'c, 'e, 'l) linter_module \<Rightarrow> ambient \<Rightarrow> ('i, 'c, 'e, 'l) extension \<Rightarrow> 'e command \<Rightarrow>
   'l \<times> shared \<Rightarrow> ('l \<times> shared) \<times> outcome" where
  "linter_call L p s cmd =
     (case cmd of
        Activate \<Rightarrow> activateLinter L p (configService s)
      | Deactivate \<Rightarrow> deactivateLinter L p
      | Restart \<Rightarrow> restartLinter L p
      | Toggle \<Rightarrow> toggleLinter L p (updateEnable (\<not> enable (configService s)) (configService s))
      | ConfigChange ev \<Rightarrow> onConfigChangeLinter L p ev (configService s))"

definition linter_input :: "'e command \<Rightarrow> ('i, 'c, 'e, 'l) extension \<Rightarrow> 'l \<times> shared" where
  "linter_input cmd s = (lint s, shared_of (host (before_calls cmd s)))"

text \<open>The formatter entry point a fan-out calls, with the arguments it passes.\<close>

definition formatter_call ::
  "ambient \<Rightarrow> io \<Rightarrow> ('i, 'c, 'e, 'l) extension \<Rightarrow> 'e command \<Rightarrow> 'i host \<Rightarrow> 'i host \<times> outcome" where
  "formatter_call p k s cmd =
     (case cmd of
        Activate \<Rightarrow> activate p (configService s) k
      | Deactivate \<Rightarrow> deactivate k
      | Restart \<Rightarrow> restartClient k
      | Toggle \<Rightarrow> toggleClient (updateEnable (\<not> enable (configService s)) (configService s)) k
      | ConfigChange ev \<Rightarrow> onConfigChange ev (configService s) k)"

text \<open>What belongs to the formatter module alone: its session variable, its status bar
  item, and the calls it has made.\<close>

definition private_view ::
  "'i host \<Rightarrow> 'i LanguageClient option \<times> StatusBarItem option \<times> 'i event list" where
  "private_view w = (client w, myStatusBarItem w, effects w)"

text \<open>The same process with one environment variable set to \<open>v\<close> (\<open>None\<close>: unset).\<close>

definition set_env :: "string \<Rightarrow> string option \<Rightarrow> ambient \<Rightarrow> ambient" where
  "set_env x v p = p\<lparr>process_env := (process_env p)(x := v)\<rparr>"

text \<open>
  \<open>activate\<close> copies the whole of \<^verbatim>\<open>process.env\<close> into the child environment of
  the launch spec, so the value of every variable, a kill-switch included, shows up
  there. \<open>forget_var x\<close> removes the variable \<open>x\<close> from the child environment of the
  module's session and keeps everything else.
\<close>

definition forget_var :: "string \<Rightarrow> 'i host \<Rightarrow> 'i host" where
  "forget_var x w =
     w\<lparr>client :=
         map_option
           (\<lambda>c. c\<lparr>serverOptions :=
                    \<lparr>run = (run (serverOptions c))
                             \<lparr>env := (env (run (serverOptions c)))(x := None)\<rparr>,
                     debug = (debug (serverOptions c))
                               \<lparr>env := (env (debug (serverOptions c)))(x := None)\<rparr>\<rparr>\<rparr>)
           (client w)\<rparr>"

text \<open>
  Modelled from the spec: a linter module for concrete runs. The spec (section 9)
  describes the two per-backend modules as structurally identical, so this linter is
  the formatter module's own entry points, run in the process of the run they are
  called in, on module variables of its own and with library outcomes of its own. It
  pushes to the shared \<^verbatim>\<open>context.subscriptions\<close>, and where the formatter stores
  its handler in the configuration service this linter stores a handler of its own.
\<close>

definition as_linter ::
  "('i host \<Rightarrow> 'i host \<times> outcome) \<Rightarrow> 'i host \<times> shared \<Rightarrow> ('i host \<times> shared) \<times> outcome" where
  "as_linter f = (\<lambda>(l, sh).
     case f (l\<lparr>subscriptions := ctx_subscriptions sh, cs_onConfigChange := None\<rparr>) of
       (l', r) \<Rightarrow>
         ((l', \<lparr>ctx_subscriptions = subscriptions l',
                ctx_onConfigChange =
                  (case cs_onConfigChange l' of
                     None \<Rightarrow> ctx_onConfigChange sh
                   | Some h \<Rightarrow> Some LinterHandler)\<rparr>), r))"

definition formatter_as_linter :: "io \<Rightarrow> ('i, 'c, 'e, 'i host) linter_module" where
  "formatter_as_linter kl =
     \<lparr>activateLinter = (\<lambda>p cs. as_linter (activate p cs kl)),
      deactivateLinter = (\<lambda>p. as_linter (deactivate kl)),
      restartLinter = (\<lambda>p. as_linter (restartClient kl)),
      toggleLinter = (\<lambda>p cs. as_linter (toggleClient cs kl)),
      onConfigChangeLinter = (\<lambda>p ev cs. as_linter (onConfigChange ev cs kl))\<rparr>"







section \<open>Basic facts\<close>

lemmas MessageType_defs =
  MessageType_Error_def MessageType_Warning_def MessageType_Info_def
  MessageType_Log_def MessageType_Debug_def

lemma truthy_Some [simp]: "truthy (Some s) = (s \<noteq> [])"
  by (simp add: truthy_def)

lemma truthy_None [simp]: "truthy None = False"
  by (simp add: truthy_def)

lemma effects_updateStatsBar [simp]: "effects (updateStatsBar en w) = effects w"
  by (simp add: updateStatsBar_def Let_def split: option.splits)

lemma client_updateStatsBar [simp]: "client (updateStatsBar en w) = client w"
  by (simp add: updateStatsBar_def Let_def split: option.splits)

lemma endsWith_iff: "endsWith s suf \<longleftrightarrow> (\<exists>pre. s = pre @ suf)"
proof
  assume "endsWith s suf"
  then have "s = take (length s - length suf) s @ suf"
    by (metis append_take_drop_id endsWith_def)
  then show "\<exists>pre. s = pre @ suf" ..
next
  assume "\<exists>pre. s = pre @ suf"
  then show "endsWith s suf" by (auto simp: endsWith_def)
qed

section \<open>Configuration push (C1, C7)\<close>

text \<open>
  C1. Whatever the event, the configuration and the state of the module, the one call
  \<open>onConfigChange\<close> may add is the \<^verbatim>\<open>workspace/didChangeConfiguration\<close>
  notification carrying the current \<open>languageServerConfig\<close>, and it adds it exactly
  when \<open>effectsWorkspaceConfigChange\<close> holds of the event and a session exists that
  reports itself running. For an irrelevant event, a session that is not running, or
  no session, nothing is sent.
\<close>

theorem push_gating:
  "effects (fst (onConfigChange ev cs k w)) =
     effects w @
       (if effectsWorkspaceConfigChange cs ev \<and> (\<exists>c. client w = Some c \<and> isRunning c)
        then [SendNotification ''workspace/didChangeConfiguration'' (languageServerConfig cs)]
        else [])"
  by (simp add: onConfigChange_def Let_def emit_def isRunning_def split: option.splits)

text \<open>The four situations of C1 on a concrete module: relevant and running; irrelevant;
  relevant but never started; no session.\<close>

theorem push_gating_witness:
  "effects (fst (onConfigChange 1 demo_cs all_ok (demo_host (Some (demo_client Running))))) =
     [SendNotification ''workspace/didChangeConfiguration'' 7] \<and>
   effects (fst (onConfigChange 2 demo_cs all_ok (demo_host (Some (demo_client Running))))) = [] \<and>
   effects (fst (onConfigChange 1 demo_cs all_ok (demo_host (Some (demo_client Unstarted))))) = [] \<and>
   effects (fst (onConfigChange 1 demo_cs all_ok (demo_host None))) = []"
  using push_gating [of 1 demo_cs all_ok "demo_host (Some (demo_client Running))"]
        push_gating [of 2 demo_cs all_ok "demo_host (Some (demo_client Running))"]
        push_gating [of 1 demo_cs all_ok "demo_host (Some (demo_client Unstarted))"]
        push_gating [of 1 demo_cs all_ok "demo_host None"]
  by (simp add: demo_cs_def demo_host_def demo_client_def isRunning_def)

lemma client_onConfigChange:
  "client w = Some c \<Longrightarrow>
   client (fst (onConfigChange ev cs k w)) =
     Some (c\<lparr>initializationOptions := languageServerConfig cs\<rparr>)"
  by (simp add: onConfigChange_def Let_def emit_def)

lemma launch_restartClient:
  "client w = Some c \<Longrightarrow>
   List.map_filter launch_option (new_effects w (fst (restartClient k w))) =
     [initializationOptions c]"
  by (simp add: restartClient_def new_effects_def emit_def client_restart_def client_start_def
      client_stop_def split: prod.splits outcome.splits)

text \<open>
  C7. When a session object exists, \<open>onConfigChange\<close> leaves it with its
  \<open>initializationOptions\<close> set to the current \<open>languageServerConfig\<close>, for every
  event (relevant or not), every session state, and also when the push itself is
  rejected: the assignment precedes the decision. A restart issued afterwards
  launches the session with exactly these options.
\<close>

theorem init_options_refreshed:
  assumes "client w = Some c"
  shows "client (fst (onConfigChange ev cs k w)) =
           Some (c\<lparr>initializationOptions := languageServerConfig cs\<rparr>) \<and>
         List.map_filter launch_option
           (new_effects (fst (onConfigChange ev cs k w))
              (fst (restartClient k' (fst (onConfigChange ev cs k w))))) =
           [languageServerConfig cs]"
  using client_onConfigChange [OF assms, of ev cs k]
  by (simp add: launch_restartClient)

text \<open>An irrelevant event on a never-started session whose options were \<open>3\<close>: they
  become \<open>7\<close>, and the restart that follows launches with \<open>7\<close>.\<close>

theorem init_options_refreshed_witness:
  "client (fst (onConfigChange 2 demo_cs send_fails (demo_host (Some (demo_client Unstarted))))) =
     Some ((demo_client Unstarted)\<lparr>initializationOptions := 7\<rparr>) \<and>
   List.map_filter launch_option
     (new_effects
        (fst (onConfigChange 2 demo_cs send_fails (demo_host (Some (demo_client Unstarted)))))
        (fst (restartClient all_ok
               (fst (onConfigChange 2 demo_cs send_fails
                       (demo_host (Some (demo_client Unstarted)))))))) = [7]"
proof -
  have h: "client (demo_host (Some (demo_client Unstarted))) = Some (demo_client Unstarted)"
    by (simp add: demo_host_def)
  show ?thesis
    using init_options_refreshed [OF h, of 2 demo_cs send_fails all_ok]
    by (simp add: demo_cs_def)
qed

section \<open>Configuration pull (C2)\<close>



text \<open>The exception path: an item that names the section and carries a scope the
  parser rejects makes the whole request throw.\<close>

lemma configuration_throws:
  assumes "item \<in> set items" and "item_section item = Some ''oxc_language_server''"
    and "scopeUri item = Some u" and "parse u = None"
  shows "configuration parse cs items = Inl UriError"
  using assms
proof (induction items)
  case Nil
  then show ?case by simp
next
  case (Cons a items)
  show ?case
  proof (cases "a = item")
    case True
    with Cons.prems show ?thesis by (simp add: configuration_item_def)
  next
    case False
    with Cons have "configuration parse cs items = Inl UriError" by simp
    moreover have "e = UriError" for e :: error by (cases e) simp
    ultimately show ?thesis by (cases "configuration_item parse cs a") simp_all
  qed
qed

lemma malformed_scope_throws:
  "configuration demo_parse demo_cs
     [\<lparr>scopeUri = Some ''file:///ws'', item_section = Some ''oxc_language_server''\<rparr>,
      \<lparr>scopeUri = Some ''file:////ws'', item_section = Some ''oxc_language_server''\<rparr>] =
     Inl UriError"
  by (simp add: configuration_item_def demo_parse_def demo_cs_def)



section \<open>Routing of server messages (C3)\<close>

text \<open>
  C3, as stated, asks that a message of type Error reaches both an interactive alert and
  the log. The handler's Error branch calls \<^verbatim>\<open>window.showErrorMessage\<close> and
  nothing else: the message \<^verbatim>\<open>boom\<close> of type Error is alerted but not logged.
\<close>

theorem error_message_not_logged:
  "\<not> (alerted ''boom''
         (onShowMessage \<lparr>msg_type = MessageType_Error, message = ''boom''\<rparr> :: unit event list) \<and>
       logged ''boom''
         (onShowMessage \<lparr>msg_type = MessageType_Error, message = ''boom''\<rparr> :: unit event list))"
  by (simp add: onShowMessage_def logged_def alerted_def MessageType_defs)

text \<open>
  C3, amended. Every ShowMessage notification is routed to exactly one presentation: a
  message of type Error is shown as an interactive error alert and is not appended to
  the log; a message of type Debug is appended to the log at debug level and shown
  nowhere else; a message whose type is none of the five known ones is appended to the
  log at info level.
\<close>

theorem severity_routing:
  "(msg_type params = MessageType_Error \<longrightarrow>
      onShowMessage params = [ShowErrorMessage (message params)]) \<and>
   (msg_type params = MessageType_Debug \<longrightarrow>
      onShowMessage params = [ChannelDebug (message params)]) \<and>
   (\<not> recognized (msg_type params) \<longrightarrow>
      onShowMessage params = [ChannelInfo (message params)])"
  by (simp add: onShowMessage_def recognized_def MessageType_defs)

theorem severity_routing_witness:
  "onShowMessage \<lparr>msg_type = 1, message = ''e''\<rparr> = [ShowErrorMessage ''e'' :: unit event] \<and>
   onShowMessage \<lparr>msg_type = 5, message = ''d''\<rparr> = [ChannelDebug ''d'' :: unit event] \<and>
   onShowMessage \<lparr>msg_type = 9, message = ''u''\<rparr> = [ChannelInfo ''u'' :: unit event]"
  using severity_routing [of "\<lparr>msg_type = 1, message = ''e''\<rparr>"]
        severity_routing [of "\<lparr>msg_type = 5, message = ''d''\<rparr>"]
        severity_routing [of "\<lparr>msg_type = 9, message = ''u''\<rparr>"]
  by (simp add: recognized_def MessageType_defs)

section \<open>Binary resolution and launch (C4, C8)\<close>

lemma findBinary_result:
  "snd (findBinary p cs) =
     (if truthy (getOxfmtServerBinPath cs) \<and> fs_accessible p (the (getOxfmtServerBinPath cs))
      then getOxfmtServerBinPath cs else process_env p ''SERVER_PATH_DEV'')"
  by (simp add: findBinary_def split: option.splits)

lemma findBinary_access:
  "filter is_access (fst (findBinary p cs) :: 'i event list) =
     (if truthy (getOxfmtServerBinPath cs) then [FsAccess (the (getOxfmtServerBinPath cs))]
      else [])"
  by (simp add: findBinary_def split: option.splits)

lemma activate_not_found:
  assumes "\<not> truthy (snd (findBinary p cs))"
  shows "activate p cs k w =
           (emit (fst (findBinary p cs) @ [ChannelError ''oxfmt server binary not found.'']) w,
            Returned)"
proof (cases "findBinary p cs")
  case (Pair evs path)
  with assms have "\<not> truthy path" by simp
  with Pair show ?thesis by (simp add: activate_def)
qed

lemma activate_found:
  assumes "snd (findBinary p cs) = Some path" and "path \<noteq> []"
  shows "map_option serverOptions (client (fst (activate p cs k w))) =
           Some \<lparr>run = mk_run p cs path, debug = mk_run p cs path\<rparr>"
proof (cases "findBinary p cs")
  case (Pair evs path')
  with assms have "path' = Some path" by simp
  with Pair assms(2) show ?thesis
    by (simp add: activate_def Let_def emit_def client_start_def)
qed

text \<open>
  C4. \<open>findBinary\<close> resolves to the configured path when it is set and accessible, and
  to the value of \<^verbatim>\<open>SERVER_PATH_DEV\<close> in every other case; the configured path is
  probed with \<^verbatim>\<open>fsPromises.access\<close> once when it is set and never otherwise, so a
  rejected path is not tried again. When the resolved path is undefined or empty,
  \<open>activate\<close> returns normally, its last call is the error log
  \<^verbatim>\<open>oxfmt server binary not found.\<close>, the module's session variable, the
  subscriptions and the configuration handler are as before, and no session was started.
\<close>

theorem resolution_fallback:
  "snd (findBinary p cs) =
     (if truthy (getOxfmtServerBinPath cs) \<and> fs_accessible p (the (getOxfmtServerBinPath cs))
      then getOxfmtServerBinPath cs else process_env p ''SERVER_PATH_DEV'') \<and>
   filter is_access (fst (findBinary p cs) :: 'i event list) =
     (if truthy (getOxfmtServerBinPath cs) then [FsAccess (the (getOxfmtServerBinPath cs))]
      else []) \<and>
   (\<not> truthy (snd (findBinary p cs)) \<longrightarrow>
      snd (activate p cs k w) = Returned \<and>
      client (fst (activate p cs k w)) = client (w :: 'i host) \<and>
      subscriptions (fst (activate p cs k w)) = subscriptions w \<and>
      cs_onConfigChange (fst (activate p cs k w)) = cs_onConfigChange w \<and>
      last (effects (fst (activate p cs k w))) = ChannelError ''oxfmt server binary not found.'' \<and>
      List.map_filter launch_option (new_effects w (fst (activate p cs k w))) = [])"
proof (intro conjI impI)
  assume nf: "\<not> truthy (snd (findBinary p cs))"
  note a = activate_not_found [OF nf, of k w]
  show "snd (activate p cs k w) = Returned" by (simp add: a)
  show "client (fst (activate p cs k w)) = client w" by (simp add: a emit_def)
  show "subscriptions (fst (activate p cs k w)) = subscriptions w" by (simp add: a emit_def)
  show "cs_onConfigChange (fst (activate p cs k w)) = cs_onConfigChange w"
    by (simp add: a emit_def)
  show "last (effects (fst (activate p cs k w))) = ChannelError ''oxfmt server binary not found.''"
    by (simp add: a emit_def)
  show "List.map_filter launch_option (new_effects w (fst (activate p cs k w))) = []"
    by (simp add: a emit_def new_effects_def findBinary_def List.map_filter_def
        split: option.splits)
qed (rule findBinary_result findBinary_access)+

text \<open>The configured path \<^verbatim>\<open>/usr/local/bin/oxfmt\<close> is inaccessible. With
  \<^verbatim>\<open>SERVER_PATH_DEV\<close> set, resolution yields the environment's path after one
  probe; with the variable unset, activation logs the error and leaves no session.\<close>

theorem resolution_fallback_witness:
  "snd (findBinary (demo_ambient [''SERVER_PATH_DEV'' \<mapsto> ''/dev/oxfmt''] (\<lambda>f. False)) demo_cs)
     = Some ''/dev/oxfmt'' \<and>
   filter is_access
     (fst (findBinary (demo_ambient [''SERVER_PATH_DEV'' \<mapsto> ''/dev/oxfmt''] (\<lambda>f. False)) demo_cs)
        :: nat event list)
     = [FsAccess ''/usr/local/bin/oxfmt''] \<and>
   \<not> truthy (snd (findBinary (demo_ambient Map.empty (\<lambda>f. False)) demo_cs)) \<and>
   snd (activate (demo_ambient Map.empty (\<lambda>f. False)) demo_cs all_ok (demo_host None)) = Returned \<and>
   client (fst (activate (demo_ambient Map.empty (\<lambda>f. False)) demo_cs all_ok (demo_host None)))
     = None \<and>
   last (effects (fst (activate (demo_ambient Map.empty (\<lambda>f. False)) demo_cs all_ok
                         (demo_host None))))
     = ChannelError ''oxfmt server binary not found.''"
proof -
  have nf: "\<not> truthy (snd (findBinary (demo_ambient Map.empty (\<lambda>f. False)) demo_cs))"
    by (simp add: findBinary_def demo_ambient_def demo_cs_def)
  show ?thesis
    using resolution_fallback
            [of "demo_ambient [''SERVER_PATH_DEV'' \<mapsto> ''/dev/oxfmt''] (\<lambda>f. False)" demo_cs
                all_ok "demo_host None"]
          resolution_fallback [of "demo_ambient Map.empty (\<lambda>f. False)" demo_cs all_ok
                "demo_host None"] nf
    by (simp add: demo_ambient_def demo_cs_def demo_host_def)
qed

lemma serverEnv_RUST_LOG:
  "serverEnv p cs ''RUST_LOG'' =
     Some (case process_env p ''RUST_LOG'' of
             None \<Rightarrow> ''info'' | Some v \<Rightarrow> if v = [] then ''info'' else v)"
  by (simp add: serverEnv_def Let_def split: option.splits)

lemma serverEnv_PATH:
  "serverEnv p cs ''PATH'' =
     (case nodePath cs of
        None \<Rightarrow> process_env p ''PATH''
      | Some n \<Rightarrow>
          if n = [] then process_env p ''PATH''
          else Some (n @ (if process_platform p = ''win32'' then '';'' else '':'') @
                     (case process_env p ''PATH'' of None \<Rightarrow> [] | Some v \<Rightarrow> v)))"
  by (simp add: serverEnv_def Let_def split: option.splits)

lemma serverEnv_other:
  "x \<noteq> ''RUST_LOG'' \<Longrightarrow> x \<noteq> ''PATH'' \<Longrightarrow> serverEnv p cs x = process_env p x"
  by (simp add: serverEnv_def Let_def)

text \<open>
  C8. When resolution yields a non-empty path, the session that \<open>activate\<close> constructs
  has one launch spec for both \<open>run\<close> and \<open>debug\<close>. If the path ends in
  \<^verbatim>\<open>.js\<close>, \<^verbatim>\<open>.cjs\<close> or \<^verbatim>\<open>.mjs\<close> the command is \<^verbatim>\<open>node\<close> with
  arguments path and \<^verbatim>\<open>--lsp\<close>; otherwise the command is the path with the single
  argument \<^verbatim>\<open>--lsp\<close>. In both shapes the child environment is the process
  environment except that \<^verbatim>\<open>RUST_LOG\<close> is its own value when set and not empty and
  \<^verbatim>\<open>info\<close> otherwise, and except that, when a non-empty \<open>nodePath\<close> is
  configured, \<^verbatim>\<open>PATH\<close> is the \<open>nodePath\<close>, the platform's separator and the
  previous \<^verbatim>\<open>PATH\<close> (empty when unset).
\<close>

theorem launch_spec:
  assumes "snd (findBinary p cs) = Some path" and "path \<noteq> []"
  shows "map_option serverOptions (client (fst (activate p cs k w))) =
           Some \<lparr>run = mk_run p cs path, debug = mk_run p cs path\<rparr> \<and>
         (isNode path \<longleftrightarrow>
            (\<exists>pre. path = pre @ ''.js'' \<or> path = pre @ ''.cjs'' \<or> path = pre @ ''.mjs'')) \<and>
         (isNode path \<longrightarrow>
            command (mk_run p cs path) = ''node'' \<and> args (mk_run p cs path) = [path, ''--lsp'']) \<and>
         (\<not> isNode path \<longrightarrow>
            command (mk_run p cs path) = path \<and> args (mk_run p cs path) = [''--lsp'']) \<and>
         env (mk_run p cs path) ''RUST_LOG'' =
           Some (case process_env p ''RUST_LOG'' of
                   None \<Rightarrow> ''info'' | Some v \<Rightarrow> if v = [] then ''info'' else v) \<and>
         env (mk_run p cs path) ''PATH'' =
           (case nodePath cs of
              None \<Rightarrow> process_env p ''PATH''
            | Some n \<Rightarrow>
                if n = [] then process_env p ''PATH''
                else Some (n @ (if process_platform p = ''win32'' then '';'' else '':'') @
                           (case process_env p ''PATH'' of None \<Rightarrow> [] | Some v \<Rightarrow> v))) \<and>
         (\<forall>x. x \<noteq> ''RUST_LOG'' \<and> x \<noteq> ''PATH'' \<longrightarrow> env (mk_run p cs path) x = process_env p x)"
proof -
  have e: "env (mk_run p cs path) = serverEnv p cs" by (simp add: mk_run_def)
  have n: "isNode path \<longleftrightarrow>
             (\<exists>pre. path = pre @ ''.js'' \<or> path = pre @ ''.cjs'' \<or> path = pre @ ''.mjs'')"
    unfolding isNode_def endsWith_iff by blast
  show ?thesis
    unfolding e
    using activate_found [OF assms, of k w] n
    by (simp add: serverEnv_RUST_LOG serverEnv_PATH serverEnv_other mk_run_def)
qed

text \<open>A script path from the environment with a configured \<open>nodePath\<close>, and a
  binary path from the configuration without one.\<close>

theorem launch_spec_witness:
  "map_option serverOptions
     (client (fst (activate script_ambient script_cs all_ok (demo_host None)))) =
     Some \<lparr>run = mk_run script_ambient script_cs ''/dev/server.js'',
           debug = mk_run script_ambient script_cs ''/dev/server.js''\<rparr> \<and>
   command (mk_run script_ambient script_cs ''/dev/server.js'') = ''node'' \<and>
   args (mk_run script_ambient script_cs ''/dev/server.js'') = [''/dev/server.js'', ''--lsp''] \<and>
   env (mk_run script_ambient script_cs ''/dev/server.js'') ''RUST_LOG'' = Some ''info'' \<and>
   env (mk_run script_ambient script_cs ''/dev/server.js'') ''PATH'' =
     Some ''/opt/node/bin:/usr/bin'' \<and>
   env (mk_run script_ambient script_cs ''/dev/server.js'') ''SERVER_PATH_DEV'' =
     Some ''/dev/server.js'' \<and>
   command (mk_run (demo_ambient Map.empty (\<lambda>f. True)) demo_cs ''/usr/local/bin/oxfmt'') =
     ''/usr/local/bin/oxfmt'' \<and>
   args (mk_run (demo_ambient Map.empty (\<lambda>f. True)) demo_cs ''/usr/local/bin/oxfmt'') =
     [''--lsp'']"
proof -
  have h1: "snd (findBinary script_ambient script_cs) = Some ''/dev/server.js''"
    by (simp add: findBinary_def script_ambient_def script_cs_def demo_cs_def)
  have n1: "isNode ''/dev/server.js''"
    by (simp add: isNode_def endsWith_def)
  have h2: "snd (findBinary (demo_ambient Map.empty (\<lambda>f. True)) demo_cs) =
              Some ''/usr/local/bin/oxfmt''"
    by (simp add: findBinary_def demo_ambient_def demo_cs_def)
  have n2: "\<not> isNode ''/usr/local/bin/oxfmt''"
    by (simp add: isNode_def endsWith_def)
  have a: "''SERVER_PATH_DEV'' \<noteq> ''RUST_LOG'' \<and> ''SERVER_PATH_DEV'' \<noteq> ''PATH''" by simp
  note t1 = launch_spec [OF h1, of all_ok "demo_host None"]
  note t2 = launch_spec [OF h2, of all_ok "demo_host None"]
  from t1 n1 a have
    "map_option serverOptions
       (client (fst (activate script_ambient script_cs all_ok (demo_host None)))) =
       Some \<lparr>run = mk_run script_ambient script_cs ''/dev/server.js'',
             debug = mk_run script_ambient script_cs ''/dev/server.js''\<rparr>"
    "command (mk_run script_ambient script_cs ''/dev/server.js'') = ''node''"
    "args (mk_run script_ambient script_cs ''/dev/server.js'') = [''/dev/server.js'', ''--lsp'']"
    "env (mk_run script_ambient script_cs ''/dev/server.js'') ''RUST_LOG'' = Some ''info''"
    "env (mk_run script_ambient script_cs ''/dev/server.js'') ''PATH'' =
       Some ''/opt/node/bin:/usr/bin''"
    "env (mk_run script_ambient script_cs ''/dev/server.js'') ''SERVER_PATH_DEV'' =
       Some ''/dev/server.js''"
    by (simp_all add: script_ambient_def script_cs_def demo_cs_def)
  moreover from t2 n2 have
    "command (mk_run (demo_ambient Map.empty (\<lambda>f. True)) demo_cs ''/usr/local/bin/oxfmt'') =
       ''/usr/local/bin/oxfmt''"
    "args (mk_run (demo_ambient Map.empty (\<lambda>f. True)) demo_cs ''/usr/local/bin/oxfmt'') =
       [''--lsp'']"
    by simp_all
  ultimately show ?thesis by simp
qed

section \<open>Restart and toggle (C5, C6, C10)\<close>

text \<open>
  C10. With no session object, \<open>restartClient\<close> shows the error alert
  \<^verbatim>\<open>oxc client not found\<close> and returns normally; that alert is its only call, so
  nothing is started or stopped, and there is still no session object afterwards.
\<close>

theorem restart_without_client:
  assumes "client w = None"
  shows "restartClient k w = (emit [ShowErrorMessage ''oxc client not found''] w, Returned) \<and>
         client (fst (restartClient k w)) = None \<and>
         new_effects w (fst (restartClient k w)) = [ShowErrorMessage ''oxc client not found'']"
  using assms by (simp add: restartClient_def emit_def new_effects_def)

theorem restart_without_client_witness:
  "restartClient all_ok (demo_host None) =
     (emit [ShowErrorMessage ''oxc client not found''] (demo_host None), Returned) \<and>
   client (fst (restartClient all_ok (demo_host None))) = None \<and>
   new_effects (demo_host None) (fst (restartClient all_ok (demo_host None))) =
     [ShowErrorMessage ''oxc client not found'']"
proof -
  have h: "client (demo_host None) = None" by (simp add: demo_host_def)
  show ?thesis by (rule restart_without_client [OF h])
qed

text \<open>
  C5. For a session object that is not running (a never-started one in particular),
  when the start succeeds \<open>restartClient\<close> is exactly \<^verbatim>\<open>client.start()\<close>: same
  resulting state and calls, normal return, the session running, and no error shown
  or logged. The library's \<^verbatim>\<open>restart()\<close> is called if and only if the session
  reports itself running.
\<close>

theorem restart_unstarted_is_start:
  assumes "client w = Some c"
  shows "(\<not> isRunning c \<and> start_ok k \<longrightarrow>
            restartClient k w = start_session k c w \<and>
            snd (restartClient k w) = Returned \<and>
            (\<exists>c'. client (fst (restartClient k w)) = Some c' \<and> isRunning c') \<and>
            \<not> list_ex is_error (new_effects w (fst (restartClient k w)))) \<and>
         (list_ex is_restart (new_effects w (fst (restartClient k w))) \<longleftrightarrow> isRunning c)"
  using assms
  by (simp add: restartClient_def start_session_def client_start_def client_restart_def
      client_stop_def emit_def new_effects_def isRunning_def split: prod.splits outcome.splits)

theorem restart_unstarted_is_start_witness:
  "restartClient all_ok (demo_host (Some (demo_client Unstarted))) =
     start_session all_ok (demo_client Unstarted) (demo_host (Some (demo_client Unstarted))) \<and>
   snd (restartClient all_ok (demo_host (Some (demo_client Unstarted)))) = Returned \<and>
   map_option state
     (client (fst (restartClient all_ok (demo_host (Some (demo_client Unstarted)))))) =
     Some Running \<and>
   \<not> list_ex is_restart
       (new_effects (demo_host (Some (demo_client Unstarted)))
          (fst (restartClient all_ok (demo_host (Some (demo_client Unstarted))))))"
proof -
  have h: "client (demo_host (Some (demo_client Unstarted))) = Some (demo_client Unstarted)"
    by (simp add: demo_host_def)
  have nr: "\<not> isRunning (demo_client Unstarted)" by (simp add: isRunning_def demo_client_def)
  have ok: "start_ok all_ok" by (simp add: all_ok_def)
  show ?thesis using restart_unstarted_is_start [OF h, of all_ok] nr ok
    by (auto simp: isRunning_def)
qed

text \<open>
  C6. Invoking \<open>toggleClient\<close> twice with the same flag leaves the session as invoking
  it once does, for every state of the module (session running, not running, or
  absent), either value of the flag, and whichever way the library's start and stop
  turn out (the same way in both invocations). Once an invocation has returned
  normally, a further invocation with the same flag changes nothing at all and makes
  no call, however the library would behave, and the session, if there is one, is
  running exactly when the flag is true. An invocation returns normally whenever the
  library's start and stop resolve, and then an existing session is running exactly
  when the flag is true. In general it returns normally exactly when it has no call
  to make or the call it makes resolves, and the session it leaves is the one given:
  stopped when it was running, the flag is false and the stop resolves; running when
  it was not running, the flag is true and the start resolves; as it was otherwise.
\<close>

theorem toggle_idempotent:
  "client (fst (toggleClient cs k (fst (toggleClient cs k w)))) =
     client (fst (toggleClient cs k w)) \<and>
   (snd (toggleClient cs k w) = Returned \<longrightarrow>
      toggleClient cs k' (fst (toggleClient cs k w)) = (fst (toggleClient cs k w), Returned) \<and>
      (\<forall>c'. client (fst (toggleClient cs k w)) = Some c' \<longrightarrow> (isRunning c' \<longleftrightarrow> enable cs))) \<and>
   (start_ok k \<and> stop_ok k \<longrightarrow>
      snd (toggleClient cs k w) = Returned \<and>
      (\<forall>c. client w = Some c \<longrightarrow>
         (\<exists>c'. client (fst (toggleClient cs k w)) = Some c' \<and> (isRunning c' \<longleftrightarrow> enable cs)))) \<and>
   (snd (toggleClient cs k w) = Returned \<longleftrightarrow>
      (case client w of
         None \<Rightarrow> True
       | Some c \<Rightarrow> if isRunning c then enable cs \<or> stop_ok k else \<not> enable cs \<or> start_ok k)) \<and>
   client (fst (toggleClient cs k w)) =
     map_option
       (\<lambda>c. if isRunning c then (if \<not> enable cs \<and> stop_ok k then c\<lparr>state := Stopped\<rparr> else c)
            else (if enable cs \<and> start_ok k then c\<lparr>state := Running\<rparr> else c))
       (client w)"
  by (cases "client w")
     (auto simp: toggleClient_def client_start_def client_stop_def emit_def isRunning_def)

text \<open>Enabling a never-started session, disabling a running one, and enabling when the
  start is rejected.\<close>

theorem toggle_idempotent_witness:
  "start_ok all_ok \<and> stop_ok all_ok \<and> enable demo_cs \<and> \<not> enable disabled_cs \<and>
   snd (toggleClient demo_cs all_ok (demo_host (Some (demo_client Unstarted)))) = Returned \<and>
   map_option state
     (client (fst (toggleClient demo_cs all_ok (demo_host (Some (demo_client Unstarted))))))
     = Some Running \<and>
   toggleClient demo_cs start_fails
       (fst (toggleClient demo_cs all_ok (demo_host (Some (demo_client Unstarted)))))
     = (fst (toggleClient demo_cs all_ok (demo_host (Some (demo_client Unstarted)))), Returned) \<and>
   snd (toggleClient disabled_cs all_ok (demo_host (Some (demo_client Running)))) = Returned \<and>
   map_option state
     (client (fst (toggleClient disabled_cs all_ok (demo_host (Some (demo_client Running))))))
     = Some Stopped \<and>
   client (fst (toggleClient disabled_cs all_ok
                  (fst (toggleClient disabled_cs all_ok (demo_host (Some (demo_client Running)))))))
     = client (fst (toggleClient disabled_cs all_ok (demo_host (Some (demo_client Running))))) \<and>
   snd (toggleClient demo_cs start_fails (demo_host (Some (demo_client Unstarted)))) \<noteq> Returned \<and>
   map_option state
     (client (fst (toggleClient demo_cs start_fails (demo_host (Some (demo_client Unstarted))))))
     = Some Unstarted"
proof -
  have ok: "start_ok all_ok" "stop_ok all_ok" "\<not> start_ok start_fails"
    by (simp_all add: all_ok_def start_fails_def)
  have en: "enable demo_cs" "\<not> enable disabled_cs"
    by (simp_all add: demo_cs_def disabled_cs_def)
  have cu: "client (demo_host (Some (demo_client Unstarted))) = Some (demo_client Unstarted)"
    and cr: "client (demo_host (Some (demo_client Running))) = Some (demo_client Running)"
    by (simp_all add: demo_host_def)
  have st: "\<not> isRunning (demo_client Unstarted)" "isRunning (demo_client Running)"
    "state (demo_client Unstarted) = Unstarted"
    by (simp_all add: isRunning_def demo_client_def)
  note t1 = toggle_idempotent [of demo_cs all_ok "demo_host (Some (demo_client Unstarted))"
      start_fails]
  note t2 = toggle_idempotent [of disabled_cs all_ok "demo_host (Some (demo_client Running))"
      all_ok]
  note t3 = toggle_idempotent [of demo_cs start_fails "demo_host (Some (demo_client Unstarted))"
      all_ok]
  note ret = conjunct2 [THEN conjunct2, THEN conjunct2, THEN conjunct1]
  note cli = conjunct2 [THEN conjunct2, THEN conjunct2, THEN conjunct2]
  have a1: "snd (toggleClient demo_cs all_ok (demo_host (Some (demo_client Unstarted)))) = Returned"
    using t1 [THEN ret] ok en st by (simp add: cu)
  have a2: "map_option state
       (client (fst (toggleClient demo_cs all_ok (demo_host (Some (demo_client Unstarted))))))
       = Some Running"
    using ok en st by (simp add: t1 [THEN cli] cu)
  have a3: "toggleClient demo_cs start_fails
       (fst (toggleClient demo_cs all_ok (demo_host (Some (demo_client Unstarted)))))
     = (fst (toggleClient demo_cs all_ok (demo_host (Some (demo_client Unstarted)))), Returned)"
    using t1 [THEN conjunct2, THEN conjunct1] a1 by blast
  have b1: "snd (toggleClient disabled_cs all_ok (demo_host (Some (demo_client Running)))) = Returned"
    using t2 [THEN ret] ok en st by (simp add: cr)
  have b2: "map_option state
       (client (fst (toggleClient disabled_cs all_ok (demo_host (Some (demo_client Running))))))
       = Some Stopped"
    using ok en st by (simp add: t2 [THEN cli] cr)
  have b3: "client (fst (toggleClient disabled_cs all_ok
                  (fst (toggleClient disabled_cs all_ok (demo_host (Some (demo_client Running)))))))
     = client (fst (toggleClient disabled_cs all_ok (demo_host (Some (demo_client Running)))))"
    by (rule t2 [THEN conjunct1])
  have c1: "snd (toggleClient demo_cs start_fails (demo_host (Some (demo_client Unstarted))))
              \<noteq> Returned"
    using t3 [THEN ret] ok en st by (simp add: cu)
  have c2: "map_option state
       (client (fst (toggleClient demo_cs start_fails (demo_host (Some (demo_client Unstarted))))))
       = Some Unstarted"
    using ok en st by (simp add: t3 [THEN cli] cu)
  from ok en a1 a2 a3 b1 b2 b3 c1 c2 show ?thesis by blast
qed

section \<open>Kill-switches (C9)\<close>

subsection \<open>What a fan-out does to each backend\<close>

lemma private_put_shared [simp]: "private_view (put_shared sh w) = private_view w"
  by (simp add: private_view_def put_shared_def)

lemma shared_put_shared [simp]: "shared_of (put_shared sh w) = sh"
  by (simp add: shared_of_def put_shared_def)

lemma put_shared_of [simp]: "put_shared (shared_of w) w = w"
  by (simp add: shared_of_def put_shared_def)

lemma lint_fanout:
  "lint (fst (fanout p fl ff s)) =
     (if skip_linter p then lint s else fst (fst (fl (lint s, shared_of (host s)))))"
  by (simp add: fanout_def split: prod.splits outcome.splits)

lemma fanout_skip_linter:
  "skip_linter p \<Longrightarrow>
   fanout p fl ff s =
     (if skip_formatter p then (s, Returned)
      else (s\<lparr>host := fst (ff (host s))\<rparr>, snd (ff (host s))))"
  by (simp add: fanout_def split: prod.splits)




lemma fanout_formatter:
  assumes "\<not> skip_formatter p"
    and "skip_linter p \<or> snd (fl (lint s, shared_of (host s))) = Returned"
  shows "\<exists>sh. host (fst (fanout p fl ff s)) = fst (ff (put_shared sh (host s))) \<and>
              snd (fanout p fl ff s) = snd (ff (put_shared sh (host s)))"
proof (cases "skip_linter p")
  case True
  with assms(1) have "host (fst (fanout p fl ff s)) = fst (ff (put_shared (shared_of (host s)) (host s))) \<and>
              snd (fanout p fl ff s) = snd (ff (put_shared (shared_of (host s)) (host s)))"
    by (simp add: fanout_def split: prod.splits)
  then show ?thesis by blast
next
  case False
  obtain l' sh' r where fl: "fl (lint s, shared_of (host s)) = ((l', sh'), r)"
    by (metis surj_pair)
  with assms(2) False have "r = Returned" by simp
  with fl False assms(1)
  have "host (fst (fanout p fl ff s)) = fst (ff (put_shared sh' (host s))) \<and>
        snd (fanout p fl ff s) = snd (ff (put_shared sh' (host s)))"
    by (simp add: fanout_def split: prod.splits)
  then show ?thesis by blast
qed








lemmas command_defs =
  run_command_def extension_activate_def extension_deactivate_def
  restartCommand_def toggleEnable_def extension_onConfigChange_def

lemma run_command_fanout:
  "run_command L p k cmd s =
     fanout p (linter_call L p s cmd) (formatter_call p k s cmd) (before_calls cmd s)"
  by (cases cmd)
     (simp_all add: command_defs linter_call_def formatter_call_def before_calls_def Let_def)

lemma before_calls_simps [simp]:
  "lint (before_calls cmd s) = lint s"
  "private_view (host (before_calls cmd s)) = private_view (host s)"
  by (cases cmd; simp add: before_calls_def private_view_def)+


lemma skip_set_env [simp]:
  "skip_formatter (set_env ''SKIP_LINTER_TEST'' v p) = skip_formatter p"
  "skip_linter (set_env ''SKIP_FORMATTER_TEST'' v p) = skip_linter p"
  by (simp_all add: skip_formatter_def skip_linter_def set_env_def)

lemma findBinary_set_env:
  "x \<noteq> ''SERVER_PATH_DEV'' \<Longrightarrow> findBinary (set_env x v p) cs = findBinary p cs"
  by (simp add: findBinary_def set_env_def split: option.splits)

lemma serverEnv_forget:
  "x \<noteq> ''RUST_LOG'' \<Longrightarrow> x \<noteq> ''PATH'' \<Longrightarrow>
   (serverEnv (set_env x v p) cs)(x := None) = (serverEnv p cs)(x := None)"
  by (rule ext) (simp add: serverEnv_def set_env_def Let_def)

lemma mk_run_forget:
  assumes "x \<noteq> ''RUST_LOG''" "x \<noteq> ''PATH''"
  shows "(mk_run (set_env x v p) cs path)\<lparr>env := (env (mk_run (set_env x v p) cs path))(x := None)\<rparr> =
         (mk_run p cs path)\<lparr>env := (env (mk_run p cs path))(x := None)\<rparr>"
proof -
  have "process_platform (set_env x v p) = process_platform p" by (simp add: set_env_def)
  then show ?thesis
    by (simp add: mk_run_def serverEnv_forget [OF assms])
qed

lemma activate_set_env:
  assumes "x \<noteq> ''SERVER_PATH_DEV''" "x \<noteq> ''RUST_LOG''" "x \<noteq> ''PATH''"
  shows "forget_var x (fst (activate (set_env x v p) cs k w)) = forget_var x (fst (activate p cs k w))"
    and "snd (activate (set_env x v p) cs k w) = snd (activate p cs k w)"
proof -
  obtain evs path where fb: "findBinary p cs = (evs, path)" by (cases "findBinary p cs")
  then have fb': "findBinary (set_env x v p) cs = (evs, path)"
    by (simp add: findBinary_set_env [OF assms(1)])
  note m = mk_run_forget [OF assms(2,3), of v p cs "the path"]
  show "forget_var x (fst (activate (set_env x v p) cs k w)) = forget_var x (fst (activate p cs k w))"
    using m by (simp add: activate_def fb fb' forget_var_def Let_def emit_def client_start_def)
  show "snd (activate (set_env x v p) cs k w) = snd (activate p cs k w)"
    by (simp add: activate_def fb fb' Let_def client_start_def)
qed



lemma skipped_linter:
  assumes "skip_linter p"
  shows "lint (fst (run_command L p k cmd s)) = lint s"
    and "run_command L p k cmd s = run_command L' p k cmd s"
    and "skip_formatter p \<Longrightarrow> run_command L p k cmd s = (before_calls cmd s, Returned)"
  using assms by (simp_all add: run_command_fanout lint_fanout fanout_skip_linter)


lemma linter_result:
  "\<not> skip_linter p \<Longrightarrow>
   lint (fst (run_command L p k cmd s)) = fst (fst (linter_call L p s cmd (linter_input cmd s)))"
  by (simp add: run_command_fanout lint_fanout linter_input_def)










subsection \<open>A linter that copies its environment\<close>

text \<open>
  The linter of the concrete runs copies \<^verbatim>\<open>process.env\<close> into its launch spec
  as the formatter does, so its state does change with \<^verbatim>\<open>SKIP_FORMATTER_TEST\<close>:
  by the copy of that variable in its child environment, and by nothing else.
\<close>

lemma formatter_call_any_env:
  assumes "x \<noteq> ''SERVER_PATH_DEV''" "x \<noteq> ''RUST_LOG''" "x \<noteq> ''PATH''"
  shows "forget_var x (fst (formatter_call (set_env x v p) k s cmd w)) =
         forget_var x (fst (formatter_call p k s cmd w))"
  by (cases cmd) (simp_all add: formatter_call_def activate_set_env [OF assms])

lemma stand_in_call:
  "linter_call (formatter_as_linter kl) p s cmd = as_linter (formatter_call p kl s cmd)"
  by (cases cmd) (simp_all add: linter_call_def formatter_call_def formatter_as_linter_def)

lemma lint_as_linter:
  "fst (fst (as_linter f (l, sh))) =
     fst (f (l\<lparr>subscriptions := ctx_subscriptions sh, cs_onConfigChange := None\<rparr>))"
  by (simp add: as_linter_def split: prod.splits)

lemma stand_in_two_runs:
  "private_view (forget_var ''SKIP_FORMATTER_TEST''
      (lint (fst (run_command (formatter_as_linter kl)
                    (set_env ''SKIP_FORMATTER_TEST'' v p) k cmd s)))) =
   private_view (forget_var ''SKIP_FORMATTER_TEST''
      (lint (fst (run_command (formatter_as_linter kl) p k cmd s))))"
proof (cases "skip_linter p")
  case True
  then show ?thesis by (simp add: skipped_linter(1))
next
  case False
  have a: "''SKIP_FORMATTER_TEST'' \<noteq> ''SERVER_PATH_DEV''" "''SKIP_FORMATTER_TEST'' \<noteq> ''RUST_LOG''"
    "''SKIP_FORMATTER_TEST'' \<noteq> ''PATH''" by simp_all
  from False have f': "\<not> skip_linter (set_env ''SKIP_FORMATTER_TEST'' v p)" by simp
  show ?thesis
    by (simp add: linter_result [OF False] linter_result [OF f'] stand_in_call lint_as_linter
        linter_input_def formatter_call_any_env [OF a])
qed

subsection \<open>The configuration-change handler after activation\<close>

text \<open>
  Top-level activation stores its own fan-out in \<^verbatim>\<open>configService.onConfigChange\<close>
  and then calls the formatter's \<open>activate\<close>, which stores the formatter's handler in
  the same field. Which of the two the field holds after activation depends on the
  formatter's kill-switch.
\<close>

lemma formatter_activation_replaces_handler:
  assumes "\<not> skip_formatter p"
    and "skip_linter p \<or>
         snd (linter_call L p s Activate (linter_input Activate s)) = Returned"
    and "truthy (snd (findBinary p (configService s)))"
  shows "cs_onConfigChange (host (fst (extension_activate L p k s))) = Some FormatterHandler"
proof -
  from assms(2)
  have r: "skip_linter p \<or>
           snd (linter_call L p s Activate
                  (lint (before_calls Activate s), shared_of (host (before_calls Activate s)))) = Returned"
    by (simp add: linter_input_def)
  from fanout_formatter [where p = p and fl = "linter_call L p s Activate"
      and s = "before_calls Activate s" and ff = "formatter_call p k s Activate"] assms(1) r
  obtain sh where h: "host (fst (run_command L p k Activate s)) =
        fst (formatter_call p k s Activate (put_shared sh (host (before_calls Activate s))))"
    by (auto simp: run_command_fanout)
  obtain evs path where fb: "findBinary p (configService s) = (evs, path)"
    by (cases "findBinary p (configService s)")
  with assms(3) have "truthy path" by simp
  with fb have "cs_onConfigChange (fst (activate p (configService s) k w)) = Some FormatterHandler"
    for w
    by (simp add: activate_def Let_def emit_def client_start_def)
  with h show ?thesis by (simp add: run_command_def formatter_call_def)
qed

lemma skipped_backends_keep_handler:
  assumes "skip_linter p" and "skip_formatter p"
  shows "cs_onConfigChange (host (fst (extension_activate L p k s))) = Some ExtensionHandler"
  using skipped_linter(3) [OF assms, of L k Activate s]
  by (simp add: run_command_def before_calls_def)

end
